theory Spec2Isabelle
  imports Complex_Main
begin

section \<open>The replacement generator \<open>generateRandomText\<close>\<close>

text \<open>
  A JavaScript string is a sequence of code units and \<open>.length\<close> counts them. The
  generator reads nothing of \<open>originalText\<close> but its length, so the code units of
  the argument are left abstract (\<open>'u list\<close>); every string the generator builds
  is made of the ASCII words below and is a HOL \<open>string\<close>, one \<open>char\<close> per code
  unit.

  \<open>Math.floor(Math.random() * words.length)\<close> is an index into \<open>words\<close>. The
  random source is modelled by the sequence of these indices: \<open>rnd k\<close> is the
  index drawn in the iteration that starts with \<open>attempts = k\<close> (one draw is made
  per iteration, and \<open>attempts\<close> counts the completed iterations). An index is
  below \<open>words.length\<close> by construction of the expression; the model reduces
  \<open>rnd k\<close> modulo the number of words so that every value of the sequence
  denotes such an index.
\<close>

definition words :: "string list" where
  "words = [''AI'', ''tech'', ''smart'', ''fast'', ''new'', ''good'', ''best'', ''top'',
            ''big'', ''real'', ''data'', ''code'', ''web'', ''app'', ''tool'', ''work'',
            ''easy'', ''cool'', ''hot'', ''fun'', ''modern'', ''clean'', ''simple'',
            ''quick'', ''strong'', ''bright'', ''fresh'', ''bold'']"

definition maxAttempts :: nat where
  "maxAttempts = 100"

definition lorem :: string where
  "lorem = ''Lorem ipsum dolor sit amet consectetur adipiscing elit sed do eiusmod tempor incididunt ut labore et dolore magna aliqua''"

definition randomWord :: "(nat \<Rightarrow> nat) \<Rightarrow> nat \<Rightarrow> string" where
  "randomWord rnd attempts = words ! (rnd attempts mod length words)"

text \<open>\<open>result + (result ? ' ' : '') + more\<close>: a non-empty string is truthy.\<close>

definition joinWithSpace :: "string \<Rightarrow> string \<Rightarrow> string" where
  "joinWithSpace result more = result @ (if result \<noteq> [] then '' '' else []) @ more"

text \<open>
  The \<open>while\<close> loop of lines 251 to 261, with its \<open>break\<close>. Not returning is the
  value \<open>None\<close>; that the loop always returns is a theorem below, not part of
  the definition.
\<close>

partial_function (option) wordLoop ::
  "(nat \<Rightarrow> nat) \<Rightarrow> int \<Rightarrow> string \<Rightarrow> nat \<Rightarrow> string option" where
  "wordLoop rnd originalLength result attempts =
     (if int (length result) < originalLength - 10 \<and> attempts < maxAttempts
      then (if int (length (joinWithSpace result (randomWord rnd attempts))) \<le> originalLength
            then wordLoop rnd originalLength
                   (joinWithSpace result (randomWord rnd attempts)) (attempts + 1)
            else Some result)
      else Some result)"

declare wordLoop.simps [code]

text \<open>
  \<open>String.prototype.trim\<close> removes white space and line terminators from both
  ends. Of the code units it removes, those that a \<open>char\<close> can hold are listed.
\<close>

definition isWhiteSpace :: "char \<Rightarrow> bool" where
  "isWhiteSpace c = (c \<in> set [CHR 0x09, CHR 0x0A, CHR 0x0B, CHR 0x0C, CHR 0x0D,
                               CHR 0x20, CHR 0xA0])"

definition trim :: "string \<Rightarrow> string" where
  "trim s = rev (dropWhile isWhiteSpace (rev (dropWhile isWhiteSpace s)))"

text \<open>\<open>s.substring(0, n)\<close>: a negative end counts as 0, one beyond the length as the length.\<close>

definition substring0 :: "string \<Rightarrow> int \<Rightarrow> string" where
  "substring0 s n = take (nat n) s"

text \<open>Lines 263 to 271: the padding with the filler passage.\<close>

definition padLorem :: "int \<Rightarrow> string \<Rightarrow> string" where
  "padLorem originalLength result =
     (if int (length result) < originalLength - 20
      then (let remainingLength = originalLength - int (length result) - 1
            in if remainingLength > 0
               then joinWithSpace result (substring0 lorem remainingLength)
               else result)
      else result)"

text \<open>Lines 273 to 276: the final truncation.\<close>

definition truncateToLength :: "int \<Rightarrow> string \<Rightarrow> string" where
  "truncateToLength originalLength result =
     (if int (length result) > originalLength
      then trim (substring0 result originalLength)
      else result)"

text \<open>Line 278: \<open>result || 'AI text'\<close>.\<close>

definition orFallback :: "string \<Rightarrow> string" where
  "orFallback result = (if result \<noteq> [] then result else ''AI text'')"

definition generateRandomText :: "(nat \<Rightarrow> nat) \<Rightarrow> 'u list \<Rightarrow> string option" where
  "generateRandomText rnd originalText =
     (let originalLength = int (length originalText)
      in case wordLoop rnd originalLength [] 0 of
           None \<Rightarrow> None
         | Some result \<Rightarrow>
             Some (orFallback (truncateToLength originalLength
                                 (padLorem originalLength result))))"

section \<open>The data model\<close>

text \<open>
  The interfaces of the source, as records. A field whose name is a constant of
  HOL or a keyword (\<open>top\<close>, \<open>id\<close>, \<open>text\<close>) carries a suffix naming its record.
  JavaScript numbers that are only copied are \<open>real\<close>; page indices and the page
  count are \<open>nat\<close>.
\<close>

record boundingBox =
  top_bb :: real
  left_bb :: real
  width_bb :: real
  height_bb :: real

record anchor =
  x_an :: real
  y_an :: real

record textBlock =
  id_tb :: string
  text_tb :: string
  boundingBox :: boundingBox
  anchor :: anchor
  maxWidth :: real

text \<open>\<open>TextBlock & { pageIndex: number }\<close>\<close>

record pagedTextBlock = textBlock +
  pageIndex_tb :: nat

text \<open>\<open>{ ...tb, pageIndex }\<close> (line 110)\<close>

definition withPageIndex :: "textBlock \<Rightarrow> nat \<Rightarrow> pagedTextBlock" where
  "withPageIndex tb p =
     \<lparr>id_tb = id_tb tb, text_tb = text_tb tb, boundingBox = boundingBox tb,
      anchor = anchor tb, maxWidth = maxWidth tb, pageIndex_tb = p\<rparr>"

record anchorUpdate =
  x_au :: "real option"
  y_au :: "real option"

record updatedTextBlock =
  id_utb :: string
  text_utb :: "string option"
  anchor_utb :: "anchorUpdate option"
  maxWidth_utb :: "real option"

text \<open>
  The overlay node built in lines 119 to 142: of its style, the border colour
  (set to blue by the \<open>border\<close> shorthand of line 121, and read and written by the
  click listener), the width and the height in pixels; and the text block that
  the closure of its click listener holds.
\<close>

record overlayDiv =
  borderColor :: string
  width_px :: real
  height_px :: real
  listenerTextBlock :: pagedTextBlock

text \<open>\<open>PSPDFKit.CustomOverlayItem\<close>; \<open>position\<close> is the point \<open>(x, y)\<close>.\<close>

record customOverlayItem =
  id_coi :: string
  node :: overlayDiv
  pageIndex_coi :: nat
  position :: "real \<times> real"

type_synonym err = string

text \<open>
  What a run of the handlers does to the outside, in order: the console lines
  (with the constant part of their message) and the calls on the viewer instance
  and on an editing session (named by its handle).
\<close>

datatype action =
    ConsoleLog string
  | ConsoleWarn string
  | ConsoleError string err
  | BeginContentEditingSession
  | GetTextBlocks nat nat
  | UpdateTextBlocks nat "updatedTextBlock list"
  | Commit nat
  | Discard nat
  | SetCustomOverlayItem customOverlayItem
  | RemoveCustomOverlayItem string
  | Unload
  | Load

text \<open>
  A handler is asynchronous: it runs until it awaits a promise of the viewer
  instance, and goes on when the promise settles. \<open>pending\<close> is the point where
  it waits, with the local variables and the captured component state that the
  rest of the handler reads.
\<close>

datatype pending =
    CB_begin
  | CB_getTextBlocks nat nat nat "pagedTextBlock list"
  | CB_discard nat "err option"
  | AI_begin "pagedTextBlock list" "nat \<Rightarrow> nat \<Rightarrow> nat"
  | AI_updateTextBlocks nat
  | AI_commit nat
  | AI_discard nat err

text \<open>
  How an awaited promise settles: it resolves (with a session, with the text
  blocks of a page, or with nothing), or it is rejected. Each of the awaited
  calls can be rejected: opening a session, reading the text blocks of a page,
  the batch update, the commit and the discard.
\<close>

datatype response =
    Resolved
  | Session nat
  | TextBlocks "textBlock list"
  | Rejected err

text \<open>
  The two toolbar handlers are closures: \<open>handleContentBoxesPress\<close> is built by
  \<open>useCallback\<close> and \<open>aiToolbar.onPress\<close> by \<open>useMemo\<close>, in a render of the
  component, over the values that the state variables have in that render
  (lines 73 to 173 and 186 to 327). What a handler reads as \<open>isEditing\<close>,
  \<open>selected\<close> and \<open>isProcessing\<close> are these values, whatever the setters have
  done since.
\<close>

record closure =
  isEditing_c :: bool
  selected_c :: "pagedTextBlock list"
  isProcessing_c :: bool

text \<open>
  The component: its two refs; three of its state variables, as the setters
  leave them (\<open>setIsEditing\<close>, \<open>setSelected\<close>, \<open>setIsProcessing\<close>); the closure
  of the handlers that are installed in the toolbar; the part of the viewer
  instance it uses (page count, custom overlay items by id, the editing sessions
  that are open); the handlers in flight; and what has been done so far.
\<close>

record viewer =
  overlaysRef :: "string list"
  textBlocksRef :: "pagedTextBlock list"
  isEditing :: bool
  selected :: "pagedTextBlock list"
  isProcessing :: bool
  installed :: closure
  totalPageCount :: nat
  customOverlayItems :: "string \<rightharpoonup> customOverlayItem"
  sessions :: "nat list"
  inFlight :: "pending list"
  trace :: "action list"

definition init :: "nat \<Rightarrow> viewer" where
  "init n =
     \<lparr>overlaysRef = [], textBlocksRef = [], isEditing = False, selected = [],
      isProcessing = False,
      installed = \<lparr>isEditing_c = False, selected_c = [], isProcessing_c = False\<rparr>,
      totalPageCount = n, customOverlayItems = Map.empty,
      sessions = [], inFlight = [], trace = []\<rparr>"

section \<open>Calls on the console and on the viewer instance\<close>

definition call :: "action \<Rightarrow> viewer \<Rightarrow> viewer" where
  "call a v = v\<lparr>trace := trace v @ [a]\<rparr>"

definition setCustomOverlayItem :: "customOverlayItem \<Rightarrow> viewer \<Rightarrow> viewer" where
  "setCustomOverlayItem item v =
     call (SetCustomOverlayItem item)
       (v\<lparr>customOverlayItems := (customOverlayItems v)(id_coi item \<mapsto> item)\<rparr>)"

definition removeCustomOverlayItem :: "string \<Rightarrow> viewer \<Rightarrow> viewer" where
  "removeCustomOverlayItem overlayId v =
     call (RemoveCustomOverlayItem overlayId)
       (v\<lparr>customOverlayItems := (customOverlayItems v)(overlayId := None)\<rparr>)"

section \<open>The editing-mode toggle \<open>handleContentBoxesPress\<close>\<close>

text \<open>Lines 119 to 153: the node and the overlay item of one text block.\<close>

definition newOverlayDiv :: "pagedTextBlock \<Rightarrow> overlayDiv" where
  "newOverlayDiv textBlock =
     \<lparr>borderColor = ''blue'',
      width_px = width_bb (boundingBox textBlock),
      height_px = height_bb (boundingBox textBlock),
      listenerTextBlock = textBlock\<rparr>"

definition overlayIdFor :: "pagedTextBlock \<Rightarrow> string" where
  "overlayIdFor textBlock = ''overlay-'' @ id_tb textBlock"

definition newOverlayItem :: "pagedTextBlock \<Rightarrow> customOverlayItem" where
  "newOverlayItem textBlock =
     \<lparr>id_coi = overlayIdFor textBlock,
      node = newOverlayDiv textBlock,
      pageIndex_coi = pageIndex_tb textBlock,
      position = (left_bb (boundingBox textBlock), top_bb (boundingBox textBlock))\<rparr>"

text \<open>
  Lines 114 to 159: the text blocks are stored, one overlay item is set per text
  block, in order, and the list of the new overlay ids is stored.
\<close>

definition createOverlays :: "pagedTextBlock list \<Rightarrow> viewer \<Rightarrow> viewer" where
  "createOverlays allTextBlocks v =
     (fold (\<lambda>textBlock. setCustomOverlayItem (newOverlayItem textBlock)) allTextBlocks
        (v\<lparr>textBlocksRef := allTextBlocks\<rparr>))
     \<lparr>overlaysRef := map overlayIdFor allTextBlocks\<rparr>"

text \<open>
  Lines 88 to 95, and again lines 306 to 312: every overlay of \<open>overlaysRef\<close> is
  removed, the refs and the selection are emptied, editing mode is left.
\<close>

definition clearEditing :: "viewer \<Rightarrow> viewer" where
  "clearEditing v =
     (fold removeCustomOverlayItem (overlaysRef v) v)
     \<lparr>overlaysRef := [], textBlocksRef := [], selected := [], isEditing := False\<rparr>"

text \<open>
  Lines 74 to 101: the handler up to its first \<open>await\<close>. It reads \<open>isProcessing\<close>
  and \<open>isEditing\<close> from its closure. The second component is where it waits, or
  \<open>None\<close> when it has returned.
\<close>

definition handleContentBoxesPress :: "viewer \<Rightarrow> viewer \<times> pending option" where
  "handleContentBoxesPress v =
     (let v1 = call (ConsoleLog ''Content Boxes button pressed. Current isEditing state:'') v
      in if isProcessing_c (installed v)
         then (call (ConsoleLog ''Already processing, ignoring click'') v1, None)
         else let v2 = v1\<lparr>isProcessing := True\<rparr>
              in if isEditing_c (installed v)
                 then ((clearEditing
                          (call (ConsoleLog ''Removing overlays and exiting editing mode'') v2))
                       \<lparr>isProcessing := False\<rparr>, None)
                 else (call BeginContentEditingSession
                         ((call (ConsoleLog ''Starting editing mode'') v2)
                          \<lparr>isEditing := True\<rparr>),
                       Some CB_begin))"

text \<open>Lines 165 to 170: the \<open>catch\<close> and the \<open>finally\<close> of the handler.\<close>

definition catchContentEditing :: "err \<Rightarrow> viewer \<Rightarrow> viewer" where
  "catchContentEditing error v =
     (call (ConsoleError ''Error in content editing:'' error) v)
     \<lparr>isEditing := False, isProcessing := False\<rparr>"

text \<open>
  The head of the \<open>for\<close> loop of line 108: either the text blocks of the next
  page are requested, or the loop is left, the overlays are created and the
  \<open>finally\<close> of line 160 discards the session.
\<close>

definition enumerateFrom ::
  "nat \<Rightarrow> nat \<Rightarrow> nat \<Rightarrow> pagedTextBlock list \<Rightarrow> viewer \<Rightarrow> viewer \<times> pending option" where
  "enumerateFrom tempSession totalPages pageIndex allTextBlocks v =
     (if pageIndex < totalPages
      then (call (GetTextBlocks tempSession pageIndex) v,
            Some (CB_getTextBlocks tempSession totalPages pageIndex allTextBlocks))
      else (call (Discard tempSession) (createOverlays allTextBlocks v),
            Some (CB_discard tempSession None)))"

section \<open>The overlay click listener\<close>

text \<open>
  Lines 127 to 142, for the overlay item stored under \<open>k\<close>. The listener reads
  the border colour of its node when it runs, and the updater that it passes to
  \<open>setSelected\<close> is applied to the selection as the setters have left it.
\<close>

definition isCurrentlyBlue :: "overlayDiv \<Rightarrow> bool" where
  "isCurrentlyBlue overlayDiv =
     (borderColor overlayDiv = ''blue'' \<or> borderColor overlayDiv = [])"

definition overlayClick :: "string \<Rightarrow> customOverlayItem \<Rightarrow> viewer \<Rightarrow> viewer" where
  "overlayClick k item v =
     (let overlayDiv = node item;
          textBlock = listenerTextBlock overlayDiv;
          prevSelected = selected v
      in v\<lparr>customOverlayItems := (customOverlayItems v)
              (k \<mapsto> item\<lparr>node := overlayDiv
                 \<lparr>borderColor := (if isCurrentlyBlue overlayDiv then ''red'' else ''blue'')\<rparr>\<rparr>),
           selected :=
             (if isCurrentlyBlue overlayDiv
              then (let isAlreadySelected =
                          list_ex (\<lambda>tb. id_tb tb = id_tb textBlock) prevSelected
                    in if isAlreadySelected then prevSelected else prevSelected @ [textBlock])
              else filter (\<lambda>tb. id_tb tb \<noteq> id_tb textBlock) prevSelected)\<rparr>)"

section \<open>The replacement action \<open>aiToolbar.onPress\<close>\<close>

text \<open>
  Lines 192 to 209: the handler up to its first \<open>await\<close>. It reads \<open>isEditing\<close>,
  \<open>selected\<close> and \<open>isProcessing\<close> from its closure, and the rest of the handler
  maps over the \<open>selected\<close> of the closure.
\<close>

definition aiOnPress :: "(nat \<Rightarrow> nat \<Rightarrow> nat) \<Rightarrow> viewer \<Rightarrow> viewer \<times> pending option" where
  "aiOnPress rnd v =
     (if \<not> isEditing_c (installed v) \<or> length (selected_c (installed v)) = 0
      then (call (ConsoleWarn
                    ''AI Replace can only be used in editing mode with selected text blocks'') v,
            None)
      else if isProcessing_c (installed v)
      then (call (ConsoleLog ''Already processing, ignoring AI request'') v, None)
      else (call BeginContentEditingSession
              (call (ConsoleLog ''AI Replace triggered with selected text blocks:'')
                 (v\<lparr>isProcessing := True\<rparr>)),
            Some (AI_begin (selected_c (installed v)) rnd)))"

text \<open>
  Lines 282 to 293: the \<open>map\<close> over the selection. \<open>rnd i\<close> is the sequence of
  word indices drawn while the replacement of the \<open>i\<close>-th selected block is
  generated. The console lines of each block come first in the result; the last
  one is the length check that the source prints.
\<close>

definition blockLog :: "pagedTextBlock \<Rightarrow> string \<Rightarrow> action list" where
  "blockLog textBlock newText =
     [ConsoleLog ''Text replacement for block'',
      ConsoleLog ''  Original:'',
      ConsoleLog ''  New:'',
      ConsoleLog (''  Length check: '' @
        (if length newText \<le> length (text_tb textBlock) then ''PASS'' else ''FAIL''))]"

fun updatedTextBlocks ::
  "(nat \<Rightarrow> nat \<Rightarrow> nat) \<Rightarrow> nat \<Rightarrow> pagedTextBlock list \<Rightarrow>
     (action list \<times> updatedTextBlock list) option" where
  "updatedTextBlocks rnd i [] = Some ([], [])"
| "updatedTextBlocks rnd i (textBlock # rest) =
     (case generateRandomText (rnd i) (text_tb textBlock) of
        None \<Rightarrow> None
      | Some newText \<Rightarrow>
          (case updatedTextBlocks rnd (i + 1) rest of
             None \<Rightarrow> None
           | Some (logs, updated) \<Rightarrow>
               Some (blockLog textBlock newText @ logs,
                     \<lparr>id_utb = id_tb textBlock, text_utb = Some newText,
                      anchor_utb = None, maxWidth_utb = None\<rparr> # updated)))"

text \<open>Lines 319 to 323: the outer \<open>catch\<close> and the \<open>finally\<close>.\<close>

definition catchAIReplace :: "err \<Rightarrow> viewer \<Rightarrow> viewer" where
  "catchAIReplace error v =
     (call (ConsoleError ''Error in AI Replace operation:'' error) v)
     \<lparr>isProcessing := False\<rparr>"

text \<open>Lines 313 to 317: the inner \<open>catch\<close>, up to its \<open>await\<close>.\<close>

definition catchUpdateError :: "nat \<Rightarrow> err \<Rightarrow> viewer \<Rightarrow> viewer \<times> pending option" where
  "catchUpdateError session updateError v =
     (call (Discard session)
        (call (ConsoleError ''Error during AI text update:'' updateError) v),
      Some (AI_discard session updateError))"

section \<open>Settling an awaited promise\<close>

text \<open>
  The rest of a handler from the point where it waits, up to its next \<open>await\<close>
  or its return. The result is \<open>None\<close> when the promise awaited there cannot
  settle in this way (it resolves with a value of another kind), or when the
  handler does not come back from the generation of the replacement texts.

  A session is open from the moment the call that opens it resolves, until its
  commit or its discard resolves. When the discard in the \<open>finally\<close> of line 160
  is rejected, its error takes the place of the one that was on its way, if
  any, and reaches the \<open>catch\<close> of line 165; when the discard of line 316 is
  rejected, \<open>throw updateError\<close> is not reached and the error of the discard
  reaches the \<open>catch\<close> of line 319. In both cases the session stays open.
\<close>

fun resume :: "pending \<Rightarrow> response \<Rightarrow> viewer \<Rightarrow> (viewer \<times> pending option) option" where
  "resume CB_begin (Session tempSession) v =
     Some (enumerateFrom tempSession (totalPageCount v) 0 []
             (v\<lparr>sessions := tempSession # sessions v\<rparr>))"
| "resume CB_begin (Rejected error) v = Some (catchContentEditing error v, None)"
| "resume (CB_getTextBlocks tempSession totalPages pageIndex allTextBlocks)
          (TextBlocks pageTextBlocks) v =
     Some (enumerateFrom tempSession totalPages (pageIndex + 1)
             (allTextBlocks @ map (\<lambda>tb. withPageIndex tb pageIndex) pageTextBlocks) v)"
| "resume (CB_getTextBlocks tempSession totalPages pageIndex allTextBlocks)
          (Rejected error) v =
     Some (call (Discard tempSession) v, Some (CB_discard tempSession (Some error)))"
| "resume (CB_discard tempSession thrown) Resolved v =
     (let v1 = v\<lparr>sessions := remove1 tempSession (sessions v)\<rparr>
      in case thrown of
           None \<Rightarrow> Some (v1\<lparr>isProcessing := False\<rparr>, None)
         | Some error \<Rightarrow> Some (catchContentEditing error v1, None))"
| "resume (CB_discard tempSession thrown) (Rejected error) v =
     Some (catchContentEditing error v, None)"
| "resume (AI_begin selected0 rnd) (Session session) v =
     (case updatedTextBlocks rnd 0 selected0 of
        None \<Rightarrow> None
      | Some (logs, updated) \<Rightarrow>
          Some (call (UpdateTextBlocks session updated)
                  (call (ConsoleLog ''Updating text blocks:'')
                     (fold call logs (v\<lparr>sessions := session # sessions v\<rparr>))),
                Some (AI_updateTextBlocks session)))"
| "resume (AI_begin selected0 rnd) (Rejected error) v = Some (catchAIReplace error v, None)"
| "resume (AI_updateTextBlocks session) Resolved v =
     Some (call (Commit session) v, Some (AI_commit session))"
| "resume (AI_updateTextBlocks session) (Rejected updateError) v =
     Some (catchUpdateError session updateError v)"
| "resume (AI_commit session) Resolved v =
     Some ((clearEditing
              (call (ConsoleLog ''AI text replacement completed and committed'')
                 (v\<lparr>sessions := remove1 session (sessions v)\<rparr>)))
           \<lparr>isProcessing := False\<rparr>, None)"
| "resume (AI_commit session) (Rejected updateError) v =
     Some (catchUpdateError session updateError v)"
| "resume (AI_discard session updateError) Resolved v =
     Some (catchAIReplace updateError (v\<lparr>sessions := remove1 session (sessions v)\<rparr>), None)"
| "resume (AI_discard session updateError) (Rejected error) v =
     Some (catchAIReplace error v, None)"
| "resume _ _ v = None"

section \<open>Render and change of the document\<close>

text \<open>
  A render of the component builds the two handlers over the state variables
  as they are then (the dependency lists of lines 172 and 326 hold every state
  variable a handler reads), and the effect of lines 557 to 561 installs them
  in the toolbar. Until then the toolbar keeps the handlers of the render
  before.
\<close>

definition render :: "viewer \<Rightarrow> viewer" where
  "render v =
     v\<lparr>installed := \<lparr>isEditing_c = isEditing v, selected_c = selected v,
                       isProcessing_c = isProcessing v\<rparr>\<rparr>"

text \<open>
  A change of the \<open>document\<close> prop runs the cleanup of the effect of lines 329
  to 554 (lines 542 to 553: every overlay of \<open>overlaysRef\<close> is removed, the two
  refs are emptied, the viewer is unloaded, with its overlay items) and then
  the effect again, which loads the new document, of \<open>pageCount\<close> pages. The
  cleanup calls no setter: selection, editing mode and busy flag stay.
\<close>

definition changeDocument :: "nat \<Rightarrow> viewer \<Rightarrow> viewer" where
  "changeDocument pageCount v =
     (call Load
        (call Unload
           ((fold removeCustomOverlayItem (overlaysRef v) v)
            \<lparr>overlaysRef := [], textBlocksRef := []\<rparr>)))
     \<lparr>customOverlayItems := Map.empty, totalPageCount := pageCount\<rparr>"

section \<open>Events and executions\<close>

text \<open>
  The events of the component: a press on one of the two toolbar buttons, which
  runs the handler that is installed (the press on the replacement button
  comes with the word indices that \<open>Math.random\<close> will yield to this
  invocation); a click on the overlay stored under an id; the settling of the
  promise that the \<open>i\<close>-th handler in flight awaits; a render with the
  installation of its handlers; a change of the document. A handler that
  reaches an \<open>await\<close> joins the handlers in flight; one that returns leaves
  them. Events are taken one at a time, as the event loop takes them, in any
  order.
\<close>

datatype event =
    PressContentBoxes
  | PressAI "nat \<Rightarrow> nat \<Rightarrow> nat"
  | ClickOverlay string
  | Settle nat response
  | Render
  | ChangeDocument nat

definition launch :: "viewer \<times> pending option \<Rightarrow> viewer" where
  "launch r =
     (case r of
        (v, None) \<Rightarrow> v
      | (v, Some p) \<Rightarrow> v\<lparr>inFlight := inFlight v @ [p]\<rparr>)"

definition continue :: "nat \<Rightarrow> viewer \<times> pending option \<Rightarrow> viewer" where
  "continue i r =
     (case r of
        (v, None) \<Rightarrow> v\<lparr>inFlight := take i (inFlight v) @ drop (Suc i) (inFlight v)\<rparr>
      | (v, Some p) \<Rightarrow> v\<lparr>inFlight := (inFlight v)[i := p]\<rparr>)"

fun step :: "event \<Rightarrow> viewer \<Rightarrow> viewer option" where
  "step PressContentBoxes v = Some (launch (handleContentBoxesPress v))"
| "step (PressAI rnd) v = Some (launch (aiOnPress rnd v))"
| "step (ClickOverlay k) v =
     (case customOverlayItems v k of
        None \<Rightarrow> None
      | Some item \<Rightarrow> Some (overlayClick k item v))"
| "step (Settle i r) v =
     (if i < length (inFlight v)
      then map_option (continue i) (resume (inFlight v ! i) r v)
      else None)"
| "step Render v = Some (render v)"
| "step (ChangeDocument pageCount) v = Some (changeDocument pageCount v)"

fun run :: "event list \<Rightarrow> viewer \<Rightarrow> viewer option" where
  "run [] v = Some v"
| "run (e # es) v = (case step e v of None \<Rightarrow> None | Some v' \<Rightarrow> run es v')"

section \<open>What a run collects and submits\<close>

text \<open>
  The text blocks that a complete enumeration collects: those of the pages, in
  the order of the pages, each with the index of its page, counted from \<open>p\<close>.
\<close>

fun pageBlocks :: "nat \<Rightarrow> textBlock list list \<Rightarrow> pagedTextBlock list" where
  "pageBlocks p [] = []"
| "pageBlocks p (bs # pages) = map (\<lambda>tb. withPageIndex tb p) bs @ pageBlocks (p + 1) pages"

text \<open>The batches of updates that have been submitted, in order.\<close>

fun submitted :: "action list \<Rightarrow> updatedTextBlock list list" where
  "submitted [] = []"
| "submitted (UpdateTextBlocks s updated # as) = updated # submitted as"
| "submitted (a # as) = submitted as"

section \<open>Example data\<close>

text \<open>
  A document of two pages with three and two text blocks; the events that
  activate editing mode on it, up to the render that follows; and the clicks
  that select \<open>r2\<close> and \<open>r4\<close>, with the render that follows.
\<close>

definition exampleBlock :: "string \<Rightarrow> string \<Rightarrow> textBlock" where
  "exampleBlock i t =
     \<lparr>id_tb = i, text_tb = t,
      boundingBox = \<lparr>top_bb = 10, left_bb = 20, width_bb = 100, height_bb = 12\<rparr>,
      anchor = \<lparr>x_an = 20, y_an = 10\<rparr>, maxWidth = 100\<rparr>"

definition examplePages :: "textBlock list list" where
  "examplePages =
     [[exampleBlock ''r1'' ''Invoice'', exampleBlock ''r2'' ''Hi'',
       exampleBlock ''r3'' ''Total''],
      [exampleBlock ''r4'' ''The quick brown fox jumps'', exampleBlock ''r5'' ''Page 2'']]"

definition exampleActivation :: "event list" where
  "exampleActivation =
     [PressContentBoxes, Settle 0 (Session 7),
      Settle 0 (TextBlocks (examplePages ! 0)), Settle 0 (TextBlocks (examplePages ! 1)),
      Settle 0 Resolved, Render]"

definition exampleSelection :: "event list" where
  "exampleSelection = [ClickOverlay ''overlay-r2'', ClickOverlay ''overlay-r4'', Render]"

text \<open>
  An editing state with one text block, which is selected; the handlers
  installed are those of this state.
\<close>

definition exampleEditing :: viewer where
  "exampleEditing =
     (let textBlock = withPageIndex (exampleBlock ''r1'' ''Invoice'') 0
      in \<lparr>overlaysRef = [overlayIdFor textBlock], textBlocksRef = [textBlock],
          isEditing = True, selected = [textBlock], isProcessing = False,
          installed = \<lparr>isEditing_c = True, selected_c = [textBlock], isProcessing_c = False\<rparr>,
          totalPageCount = 1,
          customOverlayItems =
            [overlayIdFor textBlock \<mapsto>
               (newOverlayItem textBlock)
               \<lparr>node := (newOverlayDiv textBlock)\<lparr>borderColor := ''red''\<rparr>\<rparr>],
          sessions = [], inFlight = [], trace = []\<rparr>)"

text \<open>
  The same state, but for the overlay, which looks unselected (as a new one
  does) although its text block is selected.
\<close>

definition exampleMismatch :: viewer where
  "exampleMismatch =
     (let textBlock = withPageIndex (exampleBlock ''r1'' ''Invoice'') 0
      in exampleEditing
           \<lparr>customOverlayItems := [overlayIdFor textBlock \<mapsto> newOverlayItem textBlock]\<rparr>)"

section \<open>Properties of the replacement generator\<close>

lemma randomWord_bounds: "randomWord rnd k \<noteq> [] \<and> length (randomWord rnd k) \<le> 6"
proof -
  have "\<forall>w \<in> set words. w \<noteq> [] \<and> length w \<le> 6"
    by (simp add: words_def)
  moreover have "randomWord rnd k \<in> set words"
    unfolding randomWord_def by (rule nth_mem) (simp add: words_def)
  ultimately show ?thesis by blast
qed

lemma joinWithSpace_longer:
  "length result < length (joinWithSpace result (randomWord rnd k))"
  using randomWord_bounds[of rnd k] by (simp add: joinWithSpace_def)

text \<open>The loop returns from every state: the distance of \<open>attempts\<close> to its bound decreases.\<close>

lemma wordLoop_returns: "\<exists>r. wordLoop rnd L result attempts = Some r"
proof (induction "maxAttempts - attempts" arbitrary: result attempts)
  case 0
  then show ?case by (subst wordLoop.simps) simp
next
  case (Suc n)
  then have "n = maxAttempts - (attempts + 1)" by simp
  from Suc.hyps(1)[OF this] show ?case
    by (subst wordLoop.simps) simp
qed

lemma wordLoop_result:
  assumes "wordLoop rnd L result attempts = Some r"
  shows "length result \<le> length r \<and> (int (length result) \<le> L \<longrightarrow> int (length r) \<le> L)"
  using assms
proof (induction "maxAttempts - attempts" arbitrary: result attempts)
  case 0
  from "0.prems" have "r = result"
    using "0.hyps" by (subst (asm) wordLoop.simps) simp
  then show ?case by simp
next
  case (Suc n)
  let ?t = "joinWithSpace result (randomWord rnd attempts)"
  have len: "length result \<le> length ?t" by (simp add: joinWithSpace_def)
  have n: "n = maxAttempts - (attempts + 1)" using Suc.hyps(2) by simp
  show ?case
  proof (cases "int (length result) < L - 10 \<and> attempts < maxAttempts \<and> int (length ?t) \<le> L")
    case True
    with Suc.prems have "wordLoop rnd L ?t (attempts + 1) = Some r"
      by (subst (asm) wordLoop.simps) simp
    from Suc.hyps(1)[OF n this] len True show ?thesis by simp
  next
    case False
    with Suc.prems have "r = result"
      by (subst (asm) wordLoop.simps) (auto split: if_splits)
    then show ?thesis by simp
  qed
qed

lemma wordLoop_short: "L \<le> 10 \<Longrightarrow> wordLoop rnd L [] 0 = Some []"
  by (subst wordLoop.simps) simp

lemma wordLoop_nonempty:
  assumes "10 < L" and "wordLoop rnd L [] 0 = Some r"
  shows "r \<noteq> []"
proof -
  let ?w = "randomWord rnd 0"
  have w: "?w \<noteq> []" "length ?w \<le> 6" using randomWord_bounds[of rnd 0] by simp_all
  have "joinWithSpace [] ?w = ?w" by (simp add: joinWithSpace_def)
  with assms w have "wordLoop rnd L ?w (0 + 1) = Some r"
    by (subst (asm) wordLoop.simps) (simp add: maxAttempts_def)
  from wordLoop_result[OF this] w show ?thesis by auto
qed

lemma padLorem_length:
  assumes "result \<noteq> []" and "int (length result) \<le> L"
  shows "padLorem L result \<noteq> [] \<and> int (length (padLorem L result)) \<le> L"
  using assms by (auto simp: padLorem_def Let_def joinWithSpace_def substring0_def)

lemma generateRandomText_returns: "\<exists>r. generateRandomText rnd s = Some r"
  using wordLoop_returns[of rnd "int (length s)" "[]" 0]
  by (auto simp: generateRandomText_def Let_def)

text \<open>
  For an original of at most 10 code units the loop is not entered and nothing
  is padded: the result is the fallback of line 278, whatever is drawn.
\<close>

lemma generateRandomText_short:
  "length s \<le> 10 \<Longrightarrow> generateRandomText rnd s = Some ''AI text''"
  by (simp add: generateRandomText_def Let_def wordLoop_short padLorem_def
      truncateToLength_def orFallback_def)

lemma generateRandomText_long:
  assumes "10 < length s" and "generateRandomText rnd s = Some r"
  shows "r \<noteq> [] \<and> length r \<le> length s"
proof -
  let ?L = "int (length s)"
  obtain r0 where r0: "wordLoop rnd ?L [] 0 = Some r0"
    using wordLoop_returns by blast
  have "r0 \<noteq> []" using wordLoop_nonempty[OF _ r0] assms(1) by simp
  moreover have "int (length r0) \<le> ?L" using wordLoop_result[OF r0] by simp
  ultimately have p: "padLorem ?L r0 \<noteq> []" "int (length (padLorem ?L r0)) \<le> ?L"
    using padLorem_length by blast+
  from assms(2) r0 have "r = orFallback (truncateToLength ?L (padLorem ?L r0))"
    by (auto simp: generateRandomText_def Let_def)
  with p show ?thesis by (simp add: truncateToLength_def orFallback_def)
qed

text \<open>
  What holds of every result: it is not empty, and it is no longer than the
  original or than the seven code units of the fallback.
\<close>

lemma generateRandomText_bound:
  assumes "generateRandomText rnd s = Some r"
  shows "r \<noteq> [] \<and> length r \<le> max 7 (length s)"
proof (cases "length s \<le> 10")
  case True
  with assms generateRandomText_short[OF True, of rnd] show ?thesis by auto
next
  case False
  with generateRandomText_long[OF _ assms] show ?thesis by auto
qed

text \<open>
  Claim C1. The replacement is to be no longer than the original, for every
  original and whatever is drawn. For the original \<open>Hi\<close> (two code units) the
  generator returns the fallback \<open>AI text\<close> (seven code units) whatever is drawn:
  the fallback of line 278 is applied after the truncation of lines 273 to 276
  and is not itself cut to the original length.
\<close>

theorem generateRandomText_exceeds_short_original:
  "generateRandomText rnd ''Hi'' = Some ''AI text'' \<and> length ''Hi'' < length ''AI text''"
  by (simp add: generateRandomText_short)

text \<open>
  Claim C10. The word loop returns from every state, for every original length
  and whatever is drawn, and so does \<open>generateRandomText\<close>. One iteration of the
  loop either leaves it with the result unchanged, or goes on with a strictly
  longer result and with \<open>attempts\<close> incremented and not beyond its bound of 100.
\<close>

theorem wordLoop_terminates:
  "(\<exists>r. wordLoop rnd L result attempts = Some r)
   \<and> (\<exists>r. generateRandomText rnd originalText = Some r)
   \<and> (wordLoop rnd L result attempts = Some result
       \<or> (wordLoop rnd L result attempts =
            wordLoop rnd L (joinWithSpace result (randomWord rnd attempts)) (attempts + 1)
           \<and> length result < length (joinWithSpace result (randomWord rnd attempts))
           \<and> attempts + 1 \<le> 100))"
proof -
  have "wordLoop rnd L result attempts = Some result
       \<or> (wordLoop rnd L result attempts =
            wordLoop rnd L (joinWithSpace result (randomWord rnd attempts)) (attempts + 1)
           \<and> attempts + 1 \<le> 100)"
    by (subst wordLoop.simps, subst (2) wordLoop.simps) (simp add: maxAttempts_def)
  then show ?thesis
    using wordLoop_returns generateRandomText_returns joinWithSpace_longer by blast
qed

section \<open>Properties of the handlers\<close>

lemma call_simps [simp]:
  "overlaysRef (call a v) = overlaysRef v"
  "textBlocksRef (call a v) = textBlocksRef v"
  "isEditing (call a v) = isEditing v"
  "selected (call a v) = selected v"
  "isProcessing (call a v) = isProcessing v"
  "installed (call a v) = installed v"
  "totalPageCount (call a v) = totalPageCount v"
  "customOverlayItems (call a v) = customOverlayItems v"
  "sessions (call a v) = sessions v"
  "inFlight (call a v) = inFlight v"
  "trace (call a v) = trace v @ [a]"
  by (simp_all add: call_def)

lemma fold_call [simp]: "fold call as v = v\<lparr>trace := trace v @ as\<rparr>"
  by (induction as arbitrary: v) (simp_all add: call_def)

lemma fold_set_fields [simp]:
  "overlaysRef (fold (\<lambda>tb. setCustomOverlayItem (f tb)) xs v) = overlaysRef v"
  "textBlocksRef (fold (\<lambda>tb. setCustomOverlayItem (f tb)) xs v) = textBlocksRef v"
  "isEditing (fold (\<lambda>tb. setCustomOverlayItem (f tb)) xs v) = isEditing v"
  "selected (fold (\<lambda>tb. setCustomOverlayItem (f tb)) xs v) = selected v"
  "isProcessing (fold (\<lambda>tb. setCustomOverlayItem (f tb)) xs v) = isProcessing v"
  "installed (fold (\<lambda>tb. setCustomOverlayItem (f tb)) xs v) = installed v"
  "totalPageCount (fold (\<lambda>tb. setCustomOverlayItem (f tb)) xs v) = totalPageCount v"
  "sessions (fold (\<lambda>tb. setCustomOverlayItem (f tb)) xs v) = sessions v"
  "inFlight (fold (\<lambda>tb. setCustomOverlayItem (f tb)) xs v) = inFlight v"
  "trace (fold (\<lambda>tb. setCustomOverlayItem (f tb)) xs v)
     = trace v @ map (\<lambda>tb. SetCustomOverlayItem (f tb)) xs"
  by (induction xs arbitrary: v; simp add: setCustomOverlayItem_def)+

lemma fold_remove_fields [simp]:
  "overlaysRef (fold removeCustomOverlayItem ks v) = overlaysRef v"
  "textBlocksRef (fold removeCustomOverlayItem ks v) = textBlocksRef v"
  "isEditing (fold removeCustomOverlayItem ks v) = isEditing v"
  "selected (fold removeCustomOverlayItem ks v) = selected v"
  "isProcessing (fold removeCustomOverlayItem ks v) = isProcessing v"
  "installed (fold removeCustomOverlayItem ks v) = installed v"
  "totalPageCount (fold removeCustomOverlayItem ks v) = totalPageCount v"
  "sessions (fold removeCustomOverlayItem ks v) = sessions v"
  "inFlight (fold removeCustomOverlayItem ks v) = inFlight v"
  "trace (fold removeCustomOverlayItem ks v) = trace v @ map RemoveCustomOverlayItem ks"
  "customOverlayItems (fold removeCustomOverlayItem ks v) k =
     (if k \<in> set ks then None else customOverlayItems v k)"
  by (induction ks arbitrary: v; simp add: removeCustomOverlayItem_def)+

lemma fold_set_store [simp]:
  "customOverlayItems (fold (\<lambda>tb. setCustomOverlayItem (newOverlayItem tb)) xs v)
     = fold (\<lambda>tb m. m(overlayIdFor tb \<mapsto> newOverlayItem tb)) xs (customOverlayItems v)"
  by (induction xs arbitrary: v) (simp_all add: setCustomOverlayItem_def newOverlayItem_def)

text \<open>The generation of the replacement texts comes back, with one update per selected block.\<close>

lemma updatedTextBlocks_returns:
  "\<exists>logs updated. updatedTextBlocks rnd i sel = Some (logs, updated)
     \<and> map id_utb updated = map id_tb sel"
proof (induction sel arbitrary: i)
  case Nil
  then show ?case by simp
next
  case (Cons tb sel)
  obtain t where t: "generateRandomText (rnd i) (text_tb tb) = Some t"
    using generateRandomText_returns by blast
  from Cons[of "i + 1"] t show ?case by auto
qed

lemma run_append:
  "run (es @ fs) v = (case run es v of None \<Rightarrow> None | Some v' \<Rightarrow> run fs v')"
  by (induction es arbitrary: v) (auto split: option.splits)

lemmas handler_defs =
  launch_def continue_def handleContentBoxesPress_def aiOnPress_def catchContentEditing_def
  catchAIReplace_def catchUpdateError_def enumerateFrom_def clearEditing_def createOverlays_def
  render_def changeDocument_def Let_def

lemma exampleEditing_guards:
  "isEditing_c (installed exampleEditing)" "selected_c (installed exampleEditing) \<noteq> []"
  "\<not> isProcessing_c (installed exampleEditing)" "inFlight exampleEditing = []"
  by (simp_all add: exampleEditing_def Let_def)

lemma overlayIdFor_inj [simp]: "overlayIdFor x = overlayIdFor y \<longleftrightarrow> id_tb x = id_tb y"
  by (simp add: overlayIdFor_def)

lemma isCurrentlyBlue_simps [simp]:
  "isCurrentlyBlue (d\<lparr>borderColor := ''red''\<rparr>) = False"
  "isCurrentlyBlue (d\<lparr>borderColor := ''blue''\<rparr>) = True"
  "isCurrentlyBlue (newOverlayDiv tb) = True"
  by (simp_all add: isCurrentlyBlue_def newOverlayDiv_def)

text \<open>
  An overlay item lies at the top-left corner of the bounding box of its text
  block, on the page of the text block, and its node has the width and the
  height of the bounding box.
\<close>

lemma newOverlayItem_geometry:
  "position (newOverlayItem tb) = (left_bb (boundingBox tb), top_bb (boundingBox tb))
   \<and> width_px (node (newOverlayItem tb)) = width_bb (boundingBox tb)
   \<and> height_px (node (newOverlayItem tb)) = height_bb (boundingBox tb)
   \<and> pageIndex_coi (newOverlayItem tb) = pageIndex_tb tb
   \<and> id_coi (newOverlayItem tb) = ''overlay-'' @ id_tb tb"
  by (simp add: newOverlayItem_def newOverlayDiv_def overlayIdFor_def)

lemmas example_defs = exampleActivation_def exampleSelection_def examplePages_def
  exampleBlock_def init_def withPageIndex_def overlayIdFor_def newOverlayItem_def
  newOverlayDiv_def overlayClick_def isCurrentlyBlue_def setCustomOverlayItem_def
  removeCustomOverlayItem_def call_def blockLog_def

subsection \<open>The runs of the editing-mode toggle\<close>

lemma pageBlocks_append:
  "pageBlocks p (xs @ ys) = pageBlocks p xs @ pageBlocks (p + length xs) ys"
  by (induction xs arbitrary: p) simp_all

lemma run_pages:
  assumes "inFlight v = [CB_getTextBlocks s n p acc]" and "p + length pages < n"
  shows "run (map (\<lambda>bs. Settle 0 (TextBlocks bs)) pages) v =
     Some (v\<lparr>inFlight := [CB_getTextBlocks s n (p + length pages) (acc @ pageBlocks p pages)],
             trace := trace v @ map (GetTextBlocks s) [p + 1 ..< p + length pages + 1]\<rparr>)"
  using assms
proof (induction pages arbitrary: v p acc)
  case Nil
  have "v = v\<lparr>inFlight := [CB_getTextBlocks s n p acc], trace := trace v\<rparr>"
    by (rule viewer.equality) (use Nil in simp_all)
  then show ?case by simp
next
  case (Cons bs pages)
  let ?v1 = "(call (GetTextBlocks s (p + 1)) v)
      \<lparr>inFlight := [CB_getTextBlocks s n (p + 1) (acc @ map (\<lambda>tb. withPageIndex tb p) bs)]\<rparr>"
  have st: "step (Settle 0 (TextBlocks bs)) v = Some ?v1"
    using Cons.prems by (simp add: handler_defs)
  have "[p + 1 ..< p + length (bs # pages) + 1] = (p + 1) # [p + 1 + 1 ..< p + 1 + length pages + 1]"
    by (simp add: upt_rec)
  moreover have "run (map (\<lambda>bs. Settle 0 (TextBlocks bs)) pages) ?v1 = 
     Some (?v1\<lparr>inFlight := [CB_getTextBlocks s n (p + 1 + length pages)
                ((acc @ map (\<lambda>tb. withPageIndex tb p) bs) @ pageBlocks (p + 1) pages)],
             trace := trace ?v1 @ map (GetTextBlocks s) [p + 1 + 1 ..< p + 1 + length pages + 1]\<rparr>)"
    by (rule Cons.IH) (use Cons.prems in simp_all)
  ultimately show ?case using st
    by (simp del: upt_Suc) 
qed

lemma enter_begin_rejected:
  assumes "\<not> isProcessing_c (installed v)" and "\<not> isEditing_c (installed v)"
    and "inFlight v = []"
  shows "run [PressContentBoxes, Settle 0 (Rejected e)] v =
     Some (v\<lparr>isEditing := False, isProcessing := False, trace := trace v @
       [ConsoleLog ''Content Boxes button pressed. Current isEditing state:'',
        ConsoleLog ''Starting editing mode'', BeginContentEditingSession,
        ConsoleError ''Error in content editing:'' e]\<rparr>)"
  using assms by (simp add: handler_defs; (rule viewer.equality; simp)?)

lemma enter_opened:
  assumes "\<not> isProcessing_c (installed v)" and "\<not> isEditing_c (installed v)"
    and "inFlight v = []" and "0 < totalPageCount v"
  shows "run [PressContentBoxes, Settle 0 (Session s)] v =
     Some (v\<lparr>isEditing := True, isProcessing := True, sessions := s # sessions v,
             inFlight := [CB_getTextBlocks s (totalPageCount v) 0 []],
             trace := trace v @
       [ConsoleLog ''Content Boxes button pressed. Current isEditing state:'',
        ConsoleLog ''Starting editing mode'', BeginContentEditingSession,
        GetTextBlocks s 0]\<rparr>)"
  using assms by (simp add: handler_defs call_def)

lemma enter_enumerated:
  assumes "\<not> isProcessing_c (installed v)" and "\<not> isEditing_c (installed v)"
    and "inFlight v = []" and "length pages < totalPageCount v"
  shows "run (PressContentBoxes # Settle 0 (Session s)
              # map (\<lambda>bs. Settle 0 (TextBlocks bs)) pages) v =
     Some (v\<lparr>isEditing := True, isProcessing := True, sessions := s # sessions v,
             inFlight := [CB_getTextBlocks s (totalPageCount v) (length pages)
                            (pageBlocks 0 pages)],
             trace := trace v @
       [ConsoleLog ''Content Boxes button pressed. Current isEditing state:'',
        ConsoleLog ''Starting editing mode'', BeginContentEditingSession]
       @ map (GetTextBlocks s) [0 ..< length pages + 1]\<rparr>)"
proof -
  let ?v1 = "v\<lparr>isEditing := True, isProcessing := True, sessions := s # sessions v,
             inFlight := [CB_getTextBlocks s (totalPageCount v) 0 []],
             trace := trace v @
       [ConsoleLog ''Content Boxes button pressed. Current isEditing state:'',
        ConsoleLog ''Starting editing mode'', BeginContentEditingSession,
        GetTextBlocks s 0]\<rparr>"
  have 1: "run [PressContentBoxes, Settle 0 (Session s)] v = Some ?v1"
    using assms by (intro enter_opened) simp_all
  have 3: "[0 ..< Suc (length pages)] = 0 # [Suc 0 ..< Suc (length pages)]"
    by (simp add: upt_rec)
  have "run (map (\<lambda>bs. Settle 0 (TextBlocks bs)) pages) ?v1 =
     Some (v\<lparr>isEditing := True, isProcessing := True, sessions := s # sessions v,
             inFlight := [CB_getTextBlocks s (totalPageCount v) (length pages)
                            (pageBlocks 0 pages)],
             trace := trace v @
       [ConsoleLog ''Content Boxes button pressed. Current isEditing state:'',
        ConsoleLog ''Starting editing mode'', BeginContentEditingSession]
       @ map (GetTextBlocks s) [0 ..< length pages + 1]\<rparr>)"
    using run_pages[of ?v1 s "totalPageCount v" 0 "[]" pages] assms(4)
    by (simp add: 3 del: upt_Suc)
  with 1 show ?thesis
    using run_append[of "[PressContentBoxes, Settle 0 (Session s)]"
        "map (\<lambda>bs. Settle 0 (TextBlocks bs)) pages" v]
    by simp
qed

lemma enter_enumeration_rejected:
  assumes "\<not> isProcessing_c (installed v)" and "\<not> isEditing_c (installed v)"
    and "inFlight v = []" and "length pages < totalPageCount v"
  shows "run (PressContentBoxes # Settle 0 (Session s)
              # map (\<lambda>bs. Settle 0 (TextBlocks bs)) pages
              @ [Settle 0 (Rejected e), Settle 0 Resolved]) v =
     Some (v\<lparr>isEditing := False, isProcessing := False, trace := trace v @
       [ConsoleLog ''Content Boxes button pressed. Current isEditing state:'',
        ConsoleLog ''Starting editing mode'', BeginContentEditingSession]
       @ map (GetTextBlocks s) [0 ..< length pages + 1]
       @ [Discard s, ConsoleError ''Error in content editing:'' e]\<rparr>)"
proof -
  have "run ((PressContentBoxes # Settle 0 (Session s)
              # map (\<lambda>bs. Settle 0 (TextBlocks bs)) pages)
              @ [Settle 0 (Rejected e), Settle 0 Resolved]) v =
     Some (v\<lparr>isEditing := False, isProcessing := False, trace := trace v @
       [ConsoleLog ''Content Boxes button pressed. Current isEditing state:'',
        ConsoleLog ''Starting editing mode'', BeginContentEditingSession]
       @ map (GetTextBlocks s) [0 ..< length pages + 1]
       @ [Discard s, ConsoleError ''Error in content editing:'' e]\<rparr>)"
    unfolding run_append enter_enumerated[OF assms] using assms
    by (simp add: handler_defs del: upt_Suc; (rule viewer.equality; simp)?)
  then show ?thesis by simp
qed

lemma enter_success:
  assumes "\<not> isProcessing_c (installed v)" and "\<not> isEditing_c (installed v)"
    and "inFlight v = []" and "length pages = totalPageCount v"
  shows "run (PressContentBoxes # Settle 0 (Session s)
              # map (\<lambda>bs. Settle 0 (TextBlocks bs)) pages
              @ [Settle 0 Resolved]) v =
     Some (v\<lparr>isEditing := True, isProcessing := False,
             textBlocksRef := pageBlocks 0 pages,
             overlaysRef := map overlayIdFor (pageBlocks 0 pages),
             customOverlayItems :=
               fold (\<lambda>textBlock m. m(overlayIdFor textBlock \<mapsto> newOverlayItem textBlock))
                 (pageBlocks 0 pages) (customOverlayItems v),
             trace := trace v @
       [ConsoleLog ''Content Boxes button pressed. Current isEditing state:'',
        ConsoleLog ''Starting editing mode'', BeginContentEditingSession]
       @ map (GetTextBlocks s) [0 ..< length pages]
       @ map (\<lambda>textBlock. SetCustomOverlayItem (newOverlayItem textBlock)) (pageBlocks 0 pages)
       @ [Discard s]\<rparr>)"
proof (cases pages rule: rev_cases)
  case Nil
  with assms show ?thesis
    by (simp add: handler_defs; (rule viewer.equality; simp)?)
next
  case (snoc pages' bs)
  have len: "length pages' < totalPageCount v" using assms(4) snoc by simp
  have n: "totalPageCount v = Suc (length pages')" using assms(4) snoc by simp
  have pb: "pageBlocks 0 pages
      = pageBlocks 0 pages' @ map (\<lambda>tb. withPageIndex tb (length pages')) bs"
    using snoc by (simp add: pageBlocks_append)
  have "run ((PressContentBoxes # Settle 0 (Session s)
              # map (\<lambda>bs. Settle 0 (TextBlocks bs)) pages')
              @ [Settle 0 (TextBlocks bs), Settle 0 Resolved]) v =
     Some (v\<lparr>isEditing := True, isProcessing := False,
             textBlocksRef := pageBlocks 0 pages,
             overlaysRef := map overlayIdFor (pageBlocks 0 pages),
             customOverlayItems :=
               fold (\<lambda>textBlock m. m(overlayIdFor textBlock \<mapsto> newOverlayItem textBlock))
                 (pageBlocks 0 pages) (customOverlayItems v),
             trace := trace v @
       [ConsoleLog ''Content Boxes button pressed. Current isEditing state:'',
        ConsoleLog ''Starting editing mode'', BeginContentEditingSession]
       @ map (GetTextBlocks s) [0 ..< length pages]
       @ map (\<lambda>textBlock. SetCustomOverlayItem (newOverlayItem textBlock)) (pageBlocks 0 pages)
       @ [Discard s]\<rparr>)"
    unfolding run_append enter_enumerated[OF assms(1-3) len] pb using assms(1-3) n snoc
    by (simp add: handler_defs del: upt_Suc; (rule viewer.equality; simp)?)
  then show ?thesis using snoc by simp
qed

text \<open>
  A press that finds the busy flag set in the closure of its handler starts
  nothing and only prints on the console.
\<close>

lemma press_while_busy:
  assumes "isProcessing_c (installed v)"
  shows "step PressContentBoxes v
           = Some (v\<lparr>trace := trace v @
               [ConsoleLog ''Content Boxes button pressed. Current isEditing state:'',
                ConsoleLog ''Already processing, ignoring click'']\<rparr>)"
    and "\<exists>a. step (PressAI rnd) v = Some (v\<lparr>trace := trace v @ [a]\<rparr>)"
  using assms by (auto simp: handler_defs call_def)

text \<open>
  In every state that an execution reaches, the overlay ids stored are those of
  the text blocks stored, one per text block.
\<close>

lemma refs_step:
  assumes "overlaysRef v = map overlayIdFor (textBlocksRef v)" and "step e v = Some v'"
  shows "overlaysRef v' = map overlayIdFor (textBlocksRef v')"
proof (cases e)
  case (Settle i r)
  with assms(2) obtain res where r: "resume (inFlight v ! i) r v = Some res"
    and v': "v' = continue i res"
    by (auto split: if_splits)
  from r assms(1) have "overlaysRef (fst res) = map overlayIdFor (textBlocksRef (fst res))"
    by (cases "inFlight v ! i"; cases r)
       (auto simp: handler_defs split: option.splits if_splits)
  with v' show ?thesis by (cases res; cases "snd res") (simp_all add: continue_def)
qed (use assms in \<open>auto simp: handler_defs overlayClick_def split: option.splits if_splits\<close>)

lemma refs_reachable:
  assumes "run es (init n) = Some v"
  shows "overlaysRef v = map overlayIdFor (textBlocksRef v)
     \<and> length (overlaysRef v) = length (textBlocksRef v)"
proof -
  have "overlaysRef w = map overlayIdFor (textBlocksRef w) \<Longrightarrow> run es w = Some v
        \<Longrightarrow> overlaysRef v = map overlayIdFor (textBlocksRef v)" for w
  proof (induction es arbitrary: w)
    case Nil
    then show ?case by simp
  next
    case (Cons e es)
    then show ?case by (auto split: option.splits dest: refs_step)
  qed
  from this[OF _ assms] show ?thesis by (simp add: init_def)
qed


subsection \<open>The claims\<close>



text \<open>
  Claim C3. From every state in which the replacement button is accepted (its
  handler reads editing mode, a selection and no busy flag; no handler is in
  flight), when the session opens and the batch update and the commit succeed,
  the handler ends in a state with an empty selection, an empty overlay list,
  an empty list of stored text blocks and editing mode off. (The busy flag is
  reset, no handler is in flight, the session is closed, and the overlays
  listed before are removed from the viewer instance.)
\<close>

theorem aiReplace_success:
  assumes "isEditing_c (installed v)" and "selected_c (installed v) \<noteq> []"
    and "\<not> isProcessing_c (installed v)" and "inFlight v = []"
  shows "\<exists>v'. run [PressAI rnd, Settle 0 (Session s), Settle 0 Resolved, Settle 0 Resolved] v
               = Some v'
           \<and> selected v' = [] \<and> overlaysRef v' = [] \<and> textBlocksRef v' = []
           \<and> \<not> isEditing v' \<and> \<not> isProcessing v' \<and> inFlight v' = []
           \<and> sessions v' = sessions v
           \<and> (\<forall>k \<in> set (overlaysRef v). customOverlayItems v' k = None)"
proof -
  obtain logs updated where
    u: "updatedTextBlocks rnd 0 (selected_c (installed v)) = Some (logs, updated)"
    using updatedTextBlocks_returns by blast
  show ?thesis using assms u
    by (simp add: handler_defs)
qed

theorem aiReplace_success_witness:
  "isEditing_c (installed exampleEditing) \<and> selected_c (installed exampleEditing) \<noteq> []
   \<and> \<not> isProcessing_c (installed exampleEditing) \<and> inFlight exampleEditing = []
   \<and> (\<exists>v'. run [PressAI (\<lambda>i k. 0), Settle 0 (Session 8), Settle 0 Resolved,
                 Settle 0 Resolved] exampleEditing = Some v'
           \<and> selected v' = [] \<and> overlaysRef v' = [] \<and> textBlocksRef v' = []
           \<and> \<not> isEditing v' \<and> \<not> isProcessing v' \<and> inFlight v' = []
           \<and> sessions v' = sessions exampleEditing
           \<and> (\<forall>k \<in> set (overlaysRef exampleEditing). customOverlayItems v' k = None))"
  using aiReplace_success[OF exampleEditing_guards, of "\<lambda>i k. 0" 8] exampleEditing_guards
  by blast

text \<open>
  Claim C2. From every state in which the replacement button is accepted (its
  handler reads editing mode, a selection and no busy flag; no handler is in
  flight), when the batch update is rejected, or the commit is, and the discard
  resolves, the handler ends in the state it started from, but for the busy
  flag, which is reset: overlay list, stored text blocks, selection and editing
  mode are as before. What it has done is, in this order: the update (and the
  commit, when it is the commit that fails), the console error of the inner
  handler, the discard of the session, and only then the console error of the
  outer handler, with the same error.
\<close>

theorem aiReplace_failure:
  assumes "isEditing_c (installed v)" and "selected_c (installed v) \<noteq> []"
    and "\<not> isProcessing_c (installed v)" and "inFlight v = []"
  shows "\<exists>logs updated.
       updatedTextBlocks rnd 0 (selected_c (installed v)) = Some (logs, updated)
     \<and> run [PressAI rnd, Settle 0 (Session s), Settle 0 (Rejected e), Settle 0 Resolved] v
       = Some (v\<lparr>isProcessing := False, trace := trace v
            @ [ConsoleLog ''AI Replace triggered with selected text blocks:'',
               BeginContentEditingSession]
            @ logs
            @ [ConsoleLog ''Updating text blocks:'', UpdateTextBlocks s updated,
               ConsoleError ''Error during AI text update:'' e, Discard s,
               ConsoleError ''Error in AI Replace operation:'' e]\<rparr>)
     \<and> run [PressAI rnd, Settle 0 (Session s), Settle 0 Resolved, Settle 0 (Rejected e),
             Settle 0 Resolved] v
       = Some (v\<lparr>isProcessing := False, trace := trace v
            @ [ConsoleLog ''AI Replace triggered with selected text blocks:'',
               BeginContentEditingSession]
            @ logs
            @ [ConsoleLog ''Updating text blocks:'', UpdateTextBlocks s updated, Commit s,
               ConsoleError ''Error during AI text update:'' e, Discard s,
               ConsoleError ''Error in AI Replace operation:'' e]\<rparr>)"
proof -
  obtain logs updated where
    u: "updatedTextBlocks rnd 0 (selected_c (installed v)) = Some (logs, updated)"
    using updatedTextBlocks_returns by blast
  have 1: "run [PressAI rnd, Settle 0 (Session s), Settle 0 (Rejected e), Settle 0 Resolved] v
       = Some (v\<lparr>isProcessing := False, trace := trace v
            @ [ConsoleLog ''AI Replace triggered with selected text blocks:'',
               BeginContentEditingSession]
            @ logs
            @ [ConsoleLog ''Updating text blocks:'', UpdateTextBlocks s updated,
               ConsoleError ''Error during AI text update:'' e, Discard s,
               ConsoleError ''Error in AI Replace operation:'' e]\<rparr>)"
    using assms u by (simp add: handler_defs; (rule viewer.equality; simp)?)
  have 2: "run [PressAI rnd, Settle 0 (Session s), Settle 0 Resolved, Settle 0 (Rejected e),
             Settle 0 Resolved] v
       = Some (v\<lparr>isProcessing := False, trace := trace v
            @ [ConsoleLog ''AI Replace triggered with selected text blocks:'',
               BeginContentEditingSession]
            @ logs
            @ [ConsoleLog ''Updating text blocks:'', UpdateTextBlocks s updated, Commit s,
               ConsoleError ''Error during AI text update:'' e, Discard s,
               ConsoleError ''Error in AI Replace operation:'' e]\<rparr>)"
    using assms u by (simp add: handler_defs; (rule viewer.equality; simp)?)
  from u 1 2 show ?thesis by blast
qed

theorem aiReplace_failure_witness:
  "isEditing_c (installed exampleEditing) \<and> selected_c (installed exampleEditing) \<noteq> []
   \<and> \<not> isProcessing_c (installed exampleEditing) \<and> inFlight exampleEditing = []
   \<and> (\<exists>logs updated.
         updatedTextBlocks (\<lambda>i k. 0) 0 (selected_c (installed exampleEditing))
           = Some (logs, updated)
     \<and> run [PressAI (\<lambda>i k. 0), Settle 0 (Session 8), Settle 0 (Rejected ''offline''),
            Settle 0 Resolved] exampleEditing
       = Some (exampleEditing\<lparr>isProcessing := False, trace := trace exampleEditing
            @ [ConsoleLog ''AI Replace triggered with selected text blocks:'',
               BeginContentEditingSession]
            @ logs
            @ [ConsoleLog ''Updating text blocks:'', UpdateTextBlocks 8 updated,
               ConsoleError ''Error during AI text update:'' ''offline'', Discard 8,
               ConsoleError ''Error in AI Replace operation:'' ''offline'']\<rparr>)
     \<and> run [PressAI (\<lambda>i k. 0), Settle 0 (Session 8), Settle 0 Resolved,
            Settle 0 (Rejected ''offline''), Settle 0 Resolved] exampleEditing
       = Some (exampleEditing\<lparr>isProcessing := False, trace := trace exampleEditing
            @ [ConsoleLog ''AI Replace triggered with selected text blocks:'',
               BeginContentEditingSession]
            @ logs
            @ [ConsoleLog ''Updating text blocks:'', UpdateTextBlocks 8 updated, Commit 8,
               ConsoleError ''Error during AI text update:'' ''offline'', Discard 8,
               ConsoleError ''Error in AI Replace operation:'' ''offline'']\<rparr>))"
  using aiReplace_failure[OF exampleEditing_guards, of "\<lambda>i k. 0" 8 "''offline''"]
    exampleEditing_guards
  by blast

text \<open>
  When the discard of line 316 is rejected too, the error that reaches the outer
  handler is that of the discard; the state is again the one the handler
  started from, but for the busy flag, and the session stays open.
\<close>

lemma aiReplace_failure_discard_rejected:
  assumes "isEditing_c (installed v)" and "selected_c (installed v) \<noteq> []"
    and "\<not> isProcessing_c (installed v)" and "inFlight v = []"
  shows "\<exists>logs updated.
       updatedTextBlocks rnd 0 (selected_c (installed v)) = Some (logs, updated)
     \<and> run [PressAI rnd, Settle 0 (Session s), Settle 0 (Rejected e), Settle 0 (Rejected e')] v
       = Some (v\<lparr>isProcessing := False, sessions := s # sessions v, trace := trace v
            @ [ConsoleLog ''AI Replace triggered with selected text blocks:'',
               BeginContentEditingSession]
            @ logs
            @ [ConsoleLog ''Updating text blocks:'', UpdateTextBlocks s updated,
               ConsoleError ''Error during AI text update:'' e, Discard s,
               ConsoleError ''Error in AI Replace operation:'' e']\<rparr>)"
proof -
  obtain logs updated where
    u: "updatedTextBlocks rnd 0 (selected_c (installed v)) = Some (logs, updated)"
    using updatedTextBlocks_returns by blast
  have "run [PressAI rnd, Settle 0 (Session s), Settle 0 (Rejected e), Settle 0 (Rejected e')] v
       = Some (v\<lparr>isProcessing := False, sessions := s # sessions v, trace := trace v
            @ [ConsoleLog ''AI Replace triggered with selected text blocks:'',
               BeginContentEditingSession]
            @ logs
            @ [ConsoleLog ''Updating text blocks:'', UpdateTextBlocks s updated,
               ConsoleError ''Error during AI text update:'' e, Discard s,
               ConsoleError ''Error in AI Replace operation:'' e']\<rparr>)"
    using assms u by (simp add: handler_defs; (rule viewer.equality; simp)?)
  with u show ?thesis by blast
qed

text \<open>
  Claim C7. From every state in which the toggle is accepted outside editing
  mode (its handler reads no busy flag and no editing mode; no handler is in
  flight), on each of its paths: when the session does not open, the handler
  does nothing but print the error, and ends in the state it started from but
  for editing mode and the busy flag, which are off; when the text blocks of
  some page are not delivered, after any number of pages that were, the session
  is discarded, then the error is printed, and the handler ends in that same
  state, no overlay item set and the session closed; when every page is
  delivered, the overlay items are set after the last page and the session is
  discarded after that.
\<close>

theorem temporary_session_released:
  assumes "\<not> isProcessing_c (installed v)" and "\<not> isEditing_c (installed v)"
    and "inFlight v = []"
    and "length delivered < totalPageCount v" and "length pages = totalPageCount v"
  shows "run [PressContentBoxes, Settle 0 (Rejected e)] v =
       Some (v\<lparr>isEditing := False, isProcessing := False, trace := trace v @
         [ConsoleLog ''Content Boxes button pressed. Current isEditing state:'',
          ConsoleLog ''Starting editing mode'', BeginContentEditingSession,
          ConsoleError ''Error in content editing:'' e]\<rparr>)
     \<and> run (PressContentBoxes # Settle 0 (Session s)
              # map (\<lambda>bs. Settle 0 (TextBlocks bs)) delivered
              @ [Settle 0 (Rejected e), Settle 0 Resolved]) v =
       Some (v\<lparr>isEditing := False, isProcessing := False, trace := trace v @
         [ConsoleLog ''Content Boxes button pressed. Current isEditing state:'',
          ConsoleLog ''Starting editing mode'', BeginContentEditingSession]
         @ map (GetTextBlocks s) [0 ..< length delivered + 1]
         @ [Discard s, ConsoleError ''Error in content editing:'' e]\<rparr>)
     \<and> run (PressContentBoxes # Settle 0 (Session s)
              # map (\<lambda>bs. Settle 0 (TextBlocks bs)) pages
              @ [Settle 0 Resolved]) v =
       Some (v\<lparr>isEditing := True, isProcessing := False,
               textBlocksRef := pageBlocks 0 pages,
               overlaysRef := map overlayIdFor (pageBlocks 0 pages),
               customOverlayItems :=
                 fold (\<lambda>textBlock m. m(overlayIdFor textBlock \<mapsto> newOverlayItem textBlock))
                   (pageBlocks 0 pages) (customOverlayItems v),
               trace := trace v @
         [ConsoleLog ''Content Boxes button pressed. Current isEditing state:'',
          ConsoleLog ''Starting editing mode'', BeginContentEditingSession]
         @ map (GetTextBlocks s) [0 ..< length pages]
         @ map (\<lambda>textBlock. SetCustomOverlayItem (newOverlayItem textBlock))
             (pageBlocks 0 pages)
         @ [Discard s]\<rparr>)"
  using enter_begin_rejected[OF assms(1-3)] enter_enumeration_rejected[OF assms(1-4)]
    enter_success[OF assms(1-3,5)]
  by blast

theorem temporary_session_released_witness:
  "\<exists>v1 v2 v3.
       \<not> isProcessing_c (installed (init 2)) \<and> \<not> isEditing_c (installed (init 2))
     \<and> inFlight (init 2) = []
     \<and> length [examplePages ! 0] < totalPageCount (init 2)
     \<and> length examplePages = totalPageCount (init 2)
     \<and> run [PressContentBoxes, Settle 0 (Rejected ''offline'')] (init 2) = Some v1
     \<and> \<not> isEditing v1 \<and> overlaysRef v1 = []
     \<and> run (PressContentBoxes # Settle 0 (Session 7)
              # map (\<lambda>bs. Settle 0 (TextBlocks bs)) [examplePages ! 0]
              @ [Settle 0 (Rejected ''offline''), Settle 0 Resolved]) (init 2) = Some v2
     \<and> \<not> isEditing v2 \<and> overlaysRef v2 = [] \<and> sessions v2 = []
     \<and> run (PressContentBoxes # Settle 0 (Session 7)
              # map (\<lambda>bs. Settle 0 (TextBlocks bs)) examplePages
              @ [Settle 0 Resolved]) (init 2) = Some v3
     \<and> isEditing v3 \<and> length (overlaysRef v3) = 5 \<and> sessions v3 = []
     \<and> last (trace v3) = Discard 7"
proof -
  have g: "\<not> isProcessing_c (installed (init 2))" "\<not> isEditing_c (installed (init 2))"
    "inFlight (init 2) = []"
    "length [examplePages ! 0] < totalPageCount (init 2)"
    "length examplePages = totalPageCount (init 2)"
    by (simp_all add: init_def examplePages_def)
  have p: "length (pageBlocks 0 examplePages) = 5"
    by (simp add: examplePages_def)
  from temporary_session_released[OF g, of "''offline''" 7] g p show ?thesis
    by (simp add: init_def)
qed

text \<open>
  Claim C8. The scenario of the claim: two pages with three and two text blocks;
  editing mode is activated, which stores five overlay ids; the overlays of
  \<open>r2\<close> and \<open>r4\<close> are clicked; after the render that follows, the replacement
  button is pressed and the session opens. One batch is submitted, with one update for \<open>r2\<close> and one for \<open>r4\<close>.
  The text of \<open>r2\<close> is \<open>Hi\<close>: whatever is drawn, its replacement is \<open>AI text\<close>,
  which is longer, and the handler prints that its length check failed. (The
  replacement of the 25 code units of \<open>r4\<close> is not longer than they are.)
\<close>

theorem scenario_replacement_exceeds_original:
  "\<exists>v t4. run (exampleActivation @ exampleSelection @ [PressAI rnd, Settle 0 (Session 8)])
              (init 2) = Some v
     \<and> overlaysRef v
         = [''overlay-r1'', ''overlay-r2'', ''overlay-r3'', ''overlay-r4'', ''overlay-r5'']
     \<and> submitted (trace v)
         = [[\<lparr>id_utb = ''r2'', text_utb = Some ''AI text'', anchor_utb = None,
              maxWidth_utb = None\<rparr>,
             \<lparr>id_utb = ''r4'', text_utb = Some t4, anchor_utb = None, maxWidth_utb = None\<rparr>]]
     \<and> length t4 \<le> length ''The quick brown fox jumps''
     \<and> length ''Hi'' < length ''AI text''
     \<and> ConsoleLog ''  Length check: FAIL'' \<in> set (trace v)"
proof -
  obtain t4 where t4: "generateRandomText (rnd (Suc 0)) ''The quick brown fox jumps'' = Some t4"
    using generateRandomText_returns by blast
  have l4: "length t4 \<le> 25"
    using generateRandomText_long[OF _ t4] by simp
  have t2: "generateRandomText (rnd 0) ''Hi'' = Some ''AI text''"
    by (simp add: generateRandomText_short)
  show ?thesis
    using t4 l4 t2 by (simp add: example_defs handler_defs)
qed

text \<open>
  Claim C6. While a handler of one of the two toolbar buttons is in flight, a
  press on either button is to be dropped, so that no two are in flight
  together. The handler reads the busy flag from its closure: a second press
  before the next render finds the handler of the render before the first
  press, reads the flag as it was then, and is accepted. After two presses on
  the editing-mode button in a row, the busy flag is set and two activations
  are in flight, each waiting for its own session. (When the render comes
  between the two presses, the second is dropped.)
\<close>

theorem two_handlers_in_flight:
  "map_option inFlight (run [PressContentBoxes, PressContentBoxes] (init 2))
     = Some [CB_begin, CB_begin]
   \<and> map_option isProcessing (run [PressContentBoxes] (init 2)) = Some True
   \<and> map_option isProcessing (run [PressContentBoxes, PressContentBoxes] (init 2))
     = Some True
   \<and> map_option inFlight (run [PressContentBoxes, Render, PressContentBoxes] (init 2))
     = Some [CB_begin]"
  by (simp add: example_defs handler_defs)

text \<open>
  Claim C9. In every reachable state every selected text block is to have the
  id of a stored text block. After editing mode is activated on the example
  document and \<open>r2\<close> and \<open>r4\<close> are selected, a change of the document leaves
  the component in editing mode with \<open>r2\<close> and \<open>r4\<close> selected and no stored text
  block: the cleanup of lines 542 to 553 empties the two refs, as the exit
  branch (lines 88 to 95) and the success branch of the replacement (lines 306
  to 312) do, but it does not empty the selection or leave editing mode, as
  they do. (The number of stored overlay ids is that of the stored text blocks
  there, as in every state that an execution reaches.)
\<close>

theorem selection_outlives_text_blocks:
  "\<exists>v. run (exampleActivation @ exampleSelection @ [ChangeDocument 1]) (init 2) = Some v
     \<and> isEditing v
     \<and> map id_tb (selected v) = [''r2'', ''r4'']
     \<and> textBlocksRef v = []
     \<and> overlaysRef v = []"
  by (simp add: example_defs handler_defs)

text \<open>
  A state in which an overlay looks unselected while its text block is selected
  is reached when the discard of the temporary session is rejected: the
  overlays are there and editing mode is off; a click selects \<open>r1\<close>; the next
  press on the editing-mode button activates editing mode again and sets a new
  overlay item for \<open>r1\<close>, which looks unselected, under the id of the old one.
\<close>

lemma mismatch_reachable:
  "\<exists>v item.
       run [PressContentBoxes, Settle 0 (Session 7),
            Settle 0 (TextBlocks [exampleBlock ''r1'' ''Invoice'']),
            Settle 0 (Rejected ''offline''), Render,
            ClickOverlay ''overlay-r1'',
            PressContentBoxes, Settle 0 (Session 8),
            Settle 0 (TextBlocks [exampleBlock ''r1'' ''Invoice'']),
            Settle 0 Resolved] (init 1) = Some v
     \<and> customOverlayItems v ''overlay-r1'' = Some item
     \<and> isCurrentlyBlue (node item)
     \<and> map id_tb (selected v) = [''r1'']"
  by (simp add: example_defs handler_defs)

text \<open>
  Claim C4, as stated: for every overlay and every selection, two clicks on the
  overlay leave the membership of the selection as it was. It fails where the
  overlay looks unselected while its text block is selected: the first click
  finds the block already present (the test of line 135) and adds nothing, the
  second removes it.
\<close>

theorem overlay_click_twice_counterexample:
  "map_option (isCurrentlyBlue \<circ> node) (customOverlayItems exampleMismatch ''overlay-r1'')
     = Some True
   \<and> map id_tb (selected exampleMismatch) = [''r1'']
   \<and> map_option (map id_tb \<circ> selected)
        (run [ClickOverlay ''overlay-r1''] exampleMismatch) = Some [''r1'']
   \<and> map_option (map id_tb \<circ> selected)
        (run [ClickOverlay ''overlay-r1'', ClickOverlay ''overlay-r1''] exampleMismatch)
      = Some []"
  by (simp add: exampleMismatch_def exampleEditing_def example_defs Let_def)

text \<open>
  Claim C4, amended: for every overlay item whose look agrees with the
  selection (it looks unselected exactly when no selected block has the id of
  its text block), a click flips its look; if it looked unselected, its text
  block is appended to the selection; if it looked selected, every selected
  block with the id of its text block is removed; and after a second click the
  ids of the selected blocks are those before the first click.
\<close>

theorem overlay_click_twice:
  assumes "customOverlayItems v k = Some item"
    and "isCurrentlyBlue (node item) \<longleftrightarrow>
           id_tb (listenerTextBlock (node item)) \<notin> id_tb ` set (selected v)"
  shows "\<exists>v1 item1 v2.
       step (ClickOverlay k) v = Some v1
     \<and> customOverlayItems v1 k = Some item1
     \<and> isCurrentlyBlue (node item1) = (\<not> isCurrentlyBlue (node item))
     \<and> selected v1 =
         (if isCurrentlyBlue (node item)
          then selected v @ [listenerTextBlock (node item)]
          else filter (\<lambda>tb. id_tb tb \<noteq> id_tb (listenerTextBlock (node item))) (selected v))
     \<and> step (ClickOverlay k) v1 = Some v2
     \<and> id_tb ` set (selected v2) = id_tb ` set (selected v)"
proof -
  let ?tb = "listenerTextBlock (node item)"
  show ?thesis
  proof (cases "isCurrentlyBlue (node item)")
    case True
    with assms(2) have notin: "id_tb ?tb \<notin> id_tb ` set (selected v)" by simp
    then have nin: "\<And>x. x \<in> set (selected v) \<Longrightarrow> id_tb x \<noteq> id_tb ?tb"
      by (metis imageI)
    then have nex: "\<not> list_ex (\<lambda>tb. id_tb tb = id_tb ?tb) (selected v)"
      by (auto simp: list_ex_iff)
    have "filter (\<lambda>tb. id_tb tb \<noteq> id_tb ?tb) (selected v) = selected v"
      using nin by (simp add: filter_id_conv)
    with True nex assms(1) show ?thesis
      by (auto simp: overlayClick_def Let_def)
  next
    case False
    with assms(2) have mem: "id_tb ?tb \<in> id_tb ` set (selected v)" by simp
    have nex: "\<not> list_ex (\<lambda>tb. id_tb tb = id_tb ?tb)
                 (filter (\<lambda>tb. id_tb tb \<noteq> id_tb ?tb) (selected v))"
      by (auto simp: list_ex_iff)
    have "id_tb ` set (filter (\<lambda>tb. id_tb tb \<noteq> id_tb ?tb) (selected v) @ [?tb])
            = id_tb ` set (selected v)"
      using mem by auto
    with False nex assms(1) show ?thesis
      by (auto simp: overlayClick_def Let_def)
  qed
qed

theorem overlay_click_twice_witness:
  "\<exists>v item v1 item1 v2.
       run exampleActivation (init 2) = Some v
     \<and> customOverlayItems v ''overlay-r2'' = Some item
     \<and> isCurrentlyBlue (node item)
     \<and> id_tb (listenerTextBlock (node item)) \<notin> id_tb ` set (selected v)
     \<and> step (ClickOverlay ''overlay-r2'') v = Some v1
     \<and> customOverlayItems v1 ''overlay-r2'' = Some item1
     \<and> \<not> isCurrentlyBlue (node item1)
     \<and> selected v1 = selected v @ [listenerTextBlock (node item)]
     \<and> step (ClickOverlay ''overlay-r2'') v1 = Some v2
     \<and> id_tb ` set (selected v2) = id_tb ` set (selected v)"
proof -
  obtain v item where v: "run exampleActivation (init 2) = Some v"
    and it: "customOverlayItems v ''overlay-r2'' = Some item"
    and b: "isCurrentlyBlue (node item)"
    and s: "selected v = []"
    by (simp add: example_defs handler_defs)
  from s b have a: "isCurrentlyBlue (node item) \<longleftrightarrow>
           id_tb (listenerTextBlock (node item)) \<notin> id_tb ` set (selected v)" by simp
  from overlay_click_twice[OF it a] b v it s show ?thesis by auto
qed


end
